theory Spec2Isabelle
  imports Complex_Main "HOL-Library.Multiset"
begin

section \<open>MeanVecFieldCartesian: data model\<close>

text \<open>
  The class \<^verbatim>\<open>MeanVecFieldCartesian\<close> of \<^verbatim>\<open>py/managers/MeanVecFieldCartesian.py\<close>
  stacks the velocity matrices of several samples and reduces them cell by cell.

  A numpy masked array is modelled by its cells: a cell is \<open>None\<close> where the mask is set
  and \<open>Some x\<close> where it holds the value \<open>x\<close>. Values are real numbers (rounding of
  floating point arithmetic is not modelled). A two-dimensional array is the function from
  (row, column) to its cell; the three-dimensional ensemble stack is the function from
  (row, column) to the list of cells along the third axis. All matrices of one run have the
  shape \<^verbatim>\<open>dims\<close> handed out by the loader, so shapes are not carried by the arrays.
\<close>

type_synonym marray = "nat \<Rightarrow> nat \<Rightarrow> real option"
type_synonym iarray = "nat \<Rightarrow> nat \<Rightarrow> int option"
type_synonym stack3 = "nat \<Rightarrow> nat \<Rightarrow> real option list"

datatype pyobj =
    PyNone
  | FloatArr marray
  | IntArr iarray
  | Axis "real list"
  | Mesh "real list list"

datatype exn =
    IndexError
  | AssertionError
  | AttributeError string
  | TypeError
  | LoaderError string

text \<open>
  What the aggregator reads of one \<^verbatim>\<open>VecFieldCartesian\<close> (the loader, which is not part
  of this file of the repository): \<^verbatim>\<open>x_set\<close>, \<^verbatim>\<open>y_set\<close>, \<^verbatim>\<open>dims\<close>, \<^verbatim>\<open>meshgrid\<close>
  and the entries \<^verbatim>\<open>'U'\<close>, \<^verbatim>\<open>'V'\<close>, \<^verbatim>\<open>'W'\<close> of its \<^verbatim>\<open>vel_matrix\<close>.
\<close>

record cvm =
  cvm_U :: marray
  cvm_V :: marray
  cvm_W :: marray

record VecFieldCartesian =
  vf_x_set :: "real list"
  vf_y_set :: "real list"
  vf_dims :: "nat \<times> nat"
  vf_meshgrid :: "string \<rightharpoonup> pyobj"
  vf_vel_matrix :: cvm

text \<open>
  The path lists live in a store, since the constructor keeps a reference to the list it is
  given and \<^verbatim>\<open>ingest_paths\<close> pops from that same list.
\<close>

type_synonym addr = nat
type_synonym heap = "addr \<Rightarrow> string list"

record MeanVecFieldCartesian =
  name_tag :: "string option"
  v3d_paths :: "addr option"
  min_points :: int
  velocity_fs :: "real option"
  constituent_vel_matrix_list :: "cvm list"
  x_set :: pyobj
  y_set :: pyobj
  dims :: "nat option \<times> nat option"
  meshgrid :: "string \<rightharpoonup> pyobj"
  vel_matrix :: "string \<rightharpoonup> pyobj"

definition field_keys :: "string list" where
  "field_keys = [''U'', ''V'', ''W'', ''P'', ''M'', ''u'', ''v'', ''w'',
                 ''uu'', ''vv'', ''ww'', ''cte'', ''uv'', ''uw'', ''vw'', ''uvw'', ''num'']"

definition new_instance :: "string option \<Rightarrow> addr option \<Rightarrow> int \<Rightarrow> real option \<Rightarrow> MeanVecFieldCartesian" where
  "new_instance nt paths mp vfs =
     \<lparr> name_tag = nt, v3d_paths = paths, min_points = mp, velocity_fs = vfs,
       constituent_vel_matrix_list = [],
       x_set = PyNone, y_set = PyNone, dims = (None, None),
       meshgrid = [''x_mesh'' \<mapsto> PyNone, ''y_mesh'' \<mapsto> PyNone],
       vel_matrix = map_of (map (\<lambda>k. (k, PyNone)) field_keys) \<rparr>"

section \<open>The accessor\<close>

definition getitem :: "MeanVecFieldCartesian \<Rightarrow> string \<Rightarrow> pyobj" where
  "getitem self key =
     (if vel_matrix self key \<noteq> None then the (vel_matrix self key)
      else if vel_matrix self (rev key) \<noteq> None then the (vel_matrix self (rev key))
      else if meshgrid self key \<noteq> None then the (meshgrid self key)
      else PyNone)"

definition setitem :: "MeanVecFieldCartesian \<Rightarrow> string \<Rightarrow> pyobj \<Rightarrow> exn option \<times> MeanVecFieldCartesian" where
  "setitem self key val =
     (if vel_matrix self key \<noteq> None
        then (None, self\<lparr>vel_matrix := (vel_matrix self)(key \<mapsto> val)\<rparr>)
      else if vel_matrix self (rev key) \<noteq> None
        then (None, self\<lparr>vel_matrix := (vel_matrix self)(rev key \<mapsto> val)\<rparr>)
      else (Some (AttributeError key), self))"

text \<open>Statements in sequence: an exception ends the run and keeps the object as it is then.\<close>

definition seq :: "exn option \<times> MeanVecFieldCartesian \<Rightarrow> (MeanVecFieldCartesian \<Rightarrow> exn option \<times> MeanVecFieldCartesian)
                    \<Rightarrow> exn option \<times> MeanVecFieldCartesian" where
  "seq r f = (case fst r of Some e \<Rightarrow> (Some e, snd r) | None \<Rightarrow> f (snd r))"

section \<open>Masked-array operations\<close>

fun compressed :: "'a option list \<Rightarrow> 'a list" where
  "compressed [] = []"
| "compressed (None # xs) = compressed xs"
| "compressed (Some x # xs) = x # compressed xs"

definition ma_count :: "'a option list \<Rightarrow> nat" where
  "ma_count xs = length (compressed xs)"

definition ma_mean :: "real option list \<Rightarrow> real option" where
  "ma_mean xs = (if compressed xs = [] then None
                 else Some (sum_list (compressed xs) / real (length (compressed xs))))"

definition count_axis2 :: "stack3 \<Rightarrow> nat \<Rightarrow> nat \<Rightarrow> nat" where
  "count_axis2 st r c = ma_count (st r c)"

definition mean_axis2 :: "stack3 \<Rightarrow> marray" where
  "mean_axis2 st r c = ma_mean (st r c)"

definition masked_array :: "(nat \<Rightarrow> nat \<Rightarrow> 'a option) \<Rightarrow> (nat \<Rightarrow> nat \<Rightarrow> bool)
                             \<Rightarrow> nat \<Rightarrow> nat \<Rightarrow> 'a option" where
  "masked_array dat msk r c = (if msk r c then None else dat r c)"

definition ma_binop :: "(real \<Rightarrow> real \<Rightarrow> real) \<Rightarrow> real option \<Rightarrow> real option \<Rightarrow> real option" where
  "ma_binop f a b = (case a of None \<Rightarrow> None
                     | Some x \<Rightarrow> (case b of None \<Rightarrow> None | Some y \<Rightarrow> Some (f x y)))"

definition ma_power_half :: "real option \<Rightarrow> real option" where
  "ma_power_half a = (case a of None \<Rightarrow> None
                      | Some x \<Rightarrow> if x < 0 then None else Some (x powr (1 / 2)))"

definition arr_add :: "marray \<Rightarrow> marray \<Rightarrow> marray" where
  "arr_add a b r c = ma_binop (+) (a r c) (b r c)"

definition arr_sq :: "marray \<Rightarrow> marray" where
  "arr_sq a r c = map_option (\<lambda>x. x ^ 2) (a r c)"

definition arr_power_half :: "marray \<Rightarrow> marray" where
  "arr_power_half a r c = ma_power_half (a r c)"

definition arr_half :: "marray \<Rightarrow> marray" where
  "arr_half a r c = map_option (\<lambda>x. x / 2) (a r c)"

definition zeros :: "nat \<Rightarrow> stack3" where
  "zeros depth r c = replicate depth (Some 0)"

definition layer :: "stack3 \<Rightarrow> nat \<Rightarrow> marray" where
  "layer st i r c = st r c ! i"

definition assign_layer :: "stack3 \<Rightarrow> nat \<Rightarrow> marray \<Rightarrow> stack3" where
  "assign_layer st i a r c = (st r c)[i := a r c]"

definition arr_sub :: "marray \<Rightarrow> marray \<Rightarrow> marray" where
  "arr_sub a b r c = ma_binop (-) (a r c) (b r c)"

definition stack_abs :: "stack3 \<Rightarrow> stack3" where
  "stack_abs st r c = map (map_option abs) (st r c)"

definition stack_mul :: "stack3 \<Rightarrow> stack3 \<Rightarrow> stack3" where
  "stack_mul a b r c = map2 (ma_binop (*)) (a r c) (b r c)"

text \<open>
  Arithmetic on what the accessor returns needs an array: \<^verbatim>\<open>None ** 2\<close> is a
  \<^verbatim>\<open>TypeError\<close>. An integer array is promoted to floats.
\<close>

fun as_float :: "pyobj \<Rightarrow> marray option" where
  "as_float (FloatArr a) = Some a"
| "as_float (IntArr a) = Some (\<lambda>r c. map_option real_of_int (a r c))"
| "as_float _ = None"

section \<open>The aggregation\<close>

text \<open>The first loop: \<^verbatim>\<open>u_set[:, :, i] = cvm['U']\<close> and the same for V and W.\<close>

fun stack_loop :: "cvm list \<Rightarrow> nat \<Rightarrow> stack3 \<times> stack3 \<times> stack3 \<Rightarrow> stack3 \<times> stack3 \<times> stack3" where
  "stack_loop [] i sets = sets"
| "stack_loop (m # rest) i (u_set, v_set, w_set) =
     stack_loop rest (Suc i)
       (assign_layer u_set i (cvm_U m), assign_layer v_set i (cvm_V m), assign_layer w_set i (cvm_W m))"

text \<open>The second loop: \<^verbatim>\<open>u_set_p[:, :, i] = u_set[:, :, i] - self['U']\<close> and the same for V and W.\<close>

fun fluct_loop :: "MeanVecFieldCartesian \<Rightarrow> stack3 \<times> stack3 \<times> stack3 \<Rightarrow> cvm list \<Rightarrow> nat
                    \<Rightarrow> stack3 \<times> stack3 \<times> stack3 \<Rightarrow> exn + stack3 \<times> stack3 \<times> stack3" where
  "fluct_loop self sets [] i sets_p = Inr sets_p"
| "fluct_loop self (u_set, v_set, w_set) (m # rest) i (u_set_p, v_set_p, w_set_p) =
     (case as_float (getitem self ''U'') of None \<Rightarrow> Inl TypeError | Some mU \<Rightarrow>
      case as_float (getitem self ''V'') of None \<Rightarrow> Inl TypeError | Some mV \<Rightarrow>
      case as_float (getitem self ''W'') of None \<Rightarrow> Inl TypeError | Some mW \<Rightarrow>
        fluct_loop self (u_set, v_set, w_set) rest (Suc i)
          (assign_layer u_set_p i (arr_sub (layer u_set i) mU),
           assign_layer v_set_p i (arr_sub (layer v_set i) mV),
           assign_layer w_set_p i (arr_sub (layer w_set i) mW)))"

text \<open>\<^verbatim>\<open>(self[a] ** 2 + self[b] ** 2 + self[c] ** 2) ** 0.5\<close> and the two-component form.\<close>

definition magnitude3 :: "pyobj \<Rightarrow> pyobj \<Rightarrow> pyobj \<Rightarrow> exn + pyobj" where
  "magnitude3 a b c =
     (case as_float a of None \<Rightarrow> Inl TypeError | Some x \<Rightarrow>
      case as_float b of None \<Rightarrow> Inl TypeError | Some y \<Rightarrow>
      case as_float c of None \<Rightarrow> Inl TypeError | Some z \<Rightarrow>
        Inr (FloatArr (arr_power_half (arr_add (arr_add (arr_sq x) (arr_sq y)) (arr_sq z)))))"

definition magnitude2 :: "pyobj \<Rightarrow> pyobj \<Rightarrow> exn + pyobj" where
  "magnitude2 a b =
     (case as_float a of None \<Rightarrow> Inl TypeError | Some x \<Rightarrow>
      case as_float b of None \<Rightarrow> Inl TypeError | Some y \<Rightarrow>
        Inr (FloatArr (arr_power_half (arr_add (arr_sq x) (arr_sq y)))))"

text \<open>\<^verbatim>\<open>(self['uu'] + self['vv'] + self['ww']) / 2\<close>\<close>

definition half_sum3 :: "pyobj \<Rightarrow> pyobj \<Rightarrow> pyobj \<Rightarrow> exn + pyobj" where
  "half_sum3 a b c =
     (case as_float a of None \<Rightarrow> Inl TypeError | Some x \<Rightarrow>
      case as_float b of None \<Rightarrow> Inl TypeError | Some y \<Rightarrow>
      case as_float c of None \<Rightarrow> Inl TypeError | Some z \<Rightarrow>
        Inr (FloatArr (arr_half (arr_add (arr_add x y) z))))"

text \<open>\<^verbatim>\<open>self[key] = expr\<close> where evaluating \<open>expr\<close> may raise.\<close>

definition assign :: "MeanVecFieldCartesian \<Rightarrow> string \<Rightarrow> exn + pyobj \<Rightarrow> exn option \<times> MeanVecFieldCartesian" where
  "assign self key e = (case e of Inl x \<Rightarrow> (Some x, self) | Inr v \<Rightarrow> setitem self key v)"

text \<open>
  The part of \<^verbatim>\<open>_average_cartesian\<close> after the second loop, given the fluctuation stacks
  and the mask \<open>mpm\<close>.
\<close>

definition store_moments :: "MeanVecFieldCartesian \<Rightarrow> (nat \<Rightarrow> nat \<Rightarrow> bool) \<Rightarrow> stack3 \<times> stack3 \<times> stack3
                              \<Rightarrow> exn option \<times> MeanVecFieldCartesian" where
  "store_moments self mpm sets_p =
     (case sets_p of (u_set_p, v_set_p, w_set_p) \<Rightarrow>
      seq (setitem self ''u'' (FloatArr (masked_array (mean_axis2 (stack_abs u_set_p)) mpm))) (\<lambda>self.
      seq (setitem self ''v'' (FloatArr (masked_array (mean_axis2 (stack_abs v_set_p)) mpm))) (\<lambda>self.
      seq (setitem self ''w'' (FloatArr (masked_array (mean_axis2 (stack_abs w_set_p)) mpm))) (\<lambda>self.
      seq (setitem self ''uu'' (FloatArr (masked_array (mean_axis2 (stack_mul u_set_p u_set_p)) mpm))) (\<lambda>self.
      seq (setitem self ''vv'' (FloatArr (masked_array (mean_axis2 (stack_mul v_set_p v_set_p)) mpm))) (\<lambda>self.
      seq (setitem self ''ww'' (FloatArr (masked_array (mean_axis2 (stack_mul w_set_p w_set_p)) mpm))) (\<lambda>self.
      seq (assign self ''cte'' (half_sum3 (getitem self ''uu'') (getitem self ''vv'') (getitem self ''ww''))) (\<lambda>self.
      seq (setitem self ''uv'' (FloatArr (masked_array (mean_axis2 (stack_mul u_set_p v_set_p)) mpm))) (\<lambda>self.
      seq (setitem self ''uw'' (FloatArr (masked_array (mean_axis2 (stack_mul u_set_p w_set_p)) mpm))) (\<lambda>self.
      seq (setitem self ''vw'' (FloatArr (masked_array (mean_axis2 (stack_mul v_set_p w_set_p)) mpm))) (\<lambda>self.
      setitem self ''uvw''
        (FloatArr (masked_array (mean_axis2 (stack_mul (stack_mul u_set_p v_set_p) w_set_p)) mpm))
      )))))))))))"

text \<open>
  \<^verbatim>\<open>_average_cartesian(min_points)\<close>, called with an integer as \<^verbatim>\<open>ingest_paths\<close> does.
  \<^verbatim>\<open>np.ma.zeros(self.dims + (depth,))\<close> needs integer dimensions; the \<^verbatim>\<open>print\<close> is left out.
\<close>

definition average_cartesian :: "MeanVecFieldCartesian \<Rightarrow> int \<Rightarrow> exn option \<times> MeanVecFieldCartesian" where
  "average_cartesian self0 mp =
     (let self = self0\<lparr>min_points := mp\<rparr>;
          depth = length (constituent_vel_matrix_list self) in
      case dims self of
        (Some nr, Some nc) \<Rightarrow>
          (case stack_loop (constituent_vel_matrix_list self) 0 (zeros depth, zeros depth, zeros depth) of
             (u_set, v_set, w_set) \<Rightarrow>
          let mpm = (\<lambda>r c. int (count_axis2 u_set r c) \<le> mp) in
          seq (setitem self ''num''
                 (IntArr (masked_array (\<lambda>r c. Some (int (count_axis2 u_set r c))) mpm))) (\<lambda>self.
          seq (setitem self ''U'' (FloatArr (masked_array (mean_axis2 u_set) mpm))) (\<lambda>self.
          seq (setitem self ''V'' (FloatArr (masked_array (mean_axis2 v_set) mpm))) (\<lambda>self.
          seq (setitem self ''W'' (FloatArr (masked_array (mean_axis2 w_set) mpm))) (\<lambda>self.
          seq (assign self ''M'' (magnitude3 (getitem self ''U'') (getitem self ''V'') (getitem self ''W''))) (\<lambda>self.
          seq (assign self ''P'' (magnitude2 (getitem self ''U'') (getitem self ''V''))) (\<lambda>self.
          case fluct_loop self (u_set, v_set, w_set) (constituent_vel_matrix_list self) 0
                 (zeros depth, zeros depth, zeros depth) of
            Inl e \<Rightarrow> (Some e, self)
          | Inr sets_p \<Rightarrow> store_moments self mpm sets_p)))))))
      | _ \<Rightarrow> (Some TypeError, self))"

section \<open>Ingestion\<close>

text \<open>
  The loader \<^verbatim>\<open>VecFieldCartesian(path, velocity_fs=...)\<close> is a parameter: it returns the
  sample or raises. The loop over the remaining paths asserts equal \<^verbatim>\<open>dims\<close> and appends.
\<close>

type_synonym loader = "string \<Rightarrow> real option \<Rightarrow> exn + VecFieldCartesian"

fun ingest_loop :: "loader \<Rightarrow> VecFieldCartesian \<Rightarrow> string list \<Rightarrow> MeanVecFieldCartesian \<Rightarrow> exn option \<times> MeanVecFieldCartesian" where
  "ingest_loop load first_vf [] self = (None, self)"
| "ingest_loop load first_vf (path # rest) self =
     (case load path (velocity_fs self) of
        Inl e \<Rightarrow> (Some e, self)
      | Inr next_vf \<Rightarrow>
          if vf_dims next_vf \<noteq> vf_dims first_vf then (Some AssertionError, self)
          else ingest_loop load first_vf rest
                 (self\<lparr>constituent_vel_matrix_list :=
                         constituent_vel_matrix_list self @ [vf_vel_matrix next_vf]\<rparr>))"

definition ingest_paths :: "loader \<Rightarrow> MeanVecFieldCartesian \<Rightarrow> heap \<Rightarrow> addr \<Rightarrow> exn option \<times> MeanVecFieldCartesian \<times> heap" where
  "ingest_paths load self h filepath_list =
     (case h filepath_list of
        [] \<Rightarrow> (Some IndexError, self, h)
      | path # rest \<Rightarrow>
          let h' = h(filepath_list := rest) in
          (case load path (velocity_fs self) of
             Inl e \<Rightarrow> (Some e, self, h')
           | Inr first_vf \<Rightarrow>
               let self1 = self\<lparr>x_set := Axis (vf_x_set first_vf),
                                y_set := Axis (vf_y_set first_vf),
                                dims := (Some (fst (vf_dims first_vf)), Some (snd (vf_dims first_vf))),
                                meshgrid := vf_meshgrid first_vf,
                                constituent_vel_matrix_list :=
                                  constituent_vel_matrix_list self @ [vf_vel_matrix first_vf]\<rparr>;
                   r = seq (ingest_loop load first_vf (h' filepath_list) self1)
                           (\<lambda>self. average_cartesian self (min_points self))
               in (fst r, snd r, h')))"

text \<open>The constructor: builds the empty object and ingests when paths are given.\<close>

definition init :: "loader \<Rightarrow> string option \<Rightarrow> addr option \<Rightarrow> int \<Rightarrow> real option \<Rightarrow> heap
                     \<Rightarrow> exn option \<times> MeanVecFieldCartesian \<times> heap" where
  "init load nt paths mp vfs h =
     (case paths of
        None \<Rightarrow> (None, new_instance nt paths mp vfs, h)
      | Some p \<Rightarrow> ingest_paths load (new_instance nt paths mp vfs) h p)"

section \<open>Vocabulary of the proofs\<close>

text \<open>
  The column of a cell: the values of one component there, sample by sample. It is what both
  loops of \<^verbatim>\<open>_average_cartesian\<close> build; \<open>stats\<close> is the field table the run ends with,
  written with columns (lemma \<open>average_cartesian_result\<close> proves the code computes it).
  \<open>has_keys\<close> is the invariant of the field table: its keys are those the constructor gives
  it, since \<^verbatim>\<open>__setitem__\<close> never adds one.
\<close>

definition column :: "(cvm \<Rightarrow> marray) \<Rightarrow> cvm list \<Rightarrow> stack3" where
  "column sel ms r c = map (\<lambda>m. sel m r c) ms"

definition has_keys :: "MeanVecFieldCartesian \<Rightarrow> bool" where
  "has_keys self = (dom (vel_matrix self) = set field_keys)"

definition fluct :: "stack3 \<Rightarrow> marray \<Rightarrow> stack3" where
  "fluct st m r c = map (\<lambda>x. ma_binop (-) x (m r c)) (st r c)"

definition mpm_of :: "int \<Rightarrow> cvm list \<Rightarrow> nat \<Rightarrow> nat \<Rightarrow> bool" where
  "mpm_of mp ms r c = (int (count_axis2 (column cvm_U ms) r c) \<le> mp)"

definition mean_of :: "(cvm \<Rightarrow> marray) \<Rightarrow> int \<Rightarrow> cvm list \<Rightarrow> marray" where
  "mean_of sel mp ms = masked_array (mean_axis2 (column sel ms)) (mpm_of mp ms)"

definition fluct_of :: "(cvm \<Rightarrow> marray) \<Rightarrow> int \<Rightarrow> cvm list \<Rightarrow> stack3" where
  "fluct_of sel mp ms = fluct (column sel ms) (mean_of sel mp ms)"

definition moment :: "int \<Rightarrow> cvm list \<Rightarrow> stack3 \<Rightarrow> marray" where
  "moment mp ms st = masked_array (mean_axis2 st) (mpm_of mp ms)"

definition stats :: "int \<Rightarrow> cvm list \<Rightarrow> (string \<rightharpoonup> pyobj) \<Rightarrow> (string \<rightharpoonup> pyobj)" where
  "stats mp ms vm = vm
     (''num'' \<mapsto> IntArr (masked_array (\<lambda>r c. Some (int (count_axis2 (column cvm_U ms) r c))) (mpm_of mp ms)),
      ''U'' \<mapsto> FloatArr (mean_of cvm_U mp ms),
      ''V'' \<mapsto> FloatArr (mean_of cvm_V mp ms),
      ''W'' \<mapsto> FloatArr (mean_of cvm_W mp ms),
      ''M'' \<mapsto> FloatArr (arr_power_half (arr_add (arr_add (arr_sq (mean_of cvm_U mp ms))
                 (arr_sq (mean_of cvm_V mp ms))) (arr_sq (mean_of cvm_W mp ms)))),
      ''P'' \<mapsto> FloatArr (arr_power_half (arr_add (arr_sq (mean_of cvm_U mp ms))
                 (arr_sq (mean_of cvm_V mp ms)))),
      ''u'' \<mapsto> FloatArr (moment mp ms (stack_abs (fluct_of cvm_U mp ms))),
      ''v'' \<mapsto> FloatArr (moment mp ms (stack_abs (fluct_of cvm_V mp ms))),
      ''w'' \<mapsto> FloatArr (moment mp ms (stack_abs (fluct_of cvm_W mp ms))),
      ''uu'' \<mapsto> FloatArr (moment mp ms (stack_mul (fluct_of cvm_U mp ms) (fluct_of cvm_U mp ms))),
      ''vv'' \<mapsto> FloatArr (moment mp ms (stack_mul (fluct_of cvm_V mp ms) (fluct_of cvm_V mp ms))),
      ''ww'' \<mapsto> FloatArr (moment mp ms (stack_mul (fluct_of cvm_W mp ms) (fluct_of cvm_W mp ms))),
      ''cte'' \<mapsto> FloatArr (arr_half (arr_add (arr_add
                 (moment mp ms (stack_mul (fluct_of cvm_U mp ms) (fluct_of cvm_U mp ms)))
                 (moment mp ms (stack_mul (fluct_of cvm_V mp ms) (fluct_of cvm_V mp ms))))
                 (moment mp ms (stack_mul (fluct_of cvm_W mp ms) (fluct_of cvm_W mp ms))))),
      ''uv'' \<mapsto> FloatArr (moment mp ms (stack_mul (fluct_of cvm_U mp ms) (fluct_of cvm_V mp ms))),
      ''uw'' \<mapsto> FloatArr (moment mp ms (stack_mul (fluct_of cvm_U mp ms) (fluct_of cvm_W mp ms))),
      ''vw'' \<mapsto> FloatArr (moment mp ms (stack_mul (fluct_of cvm_V mp ms) (fluct_of cvm_W mp ms))),
      ''uvw'' \<mapsto> FloatArr (moment mp ms (stack_mul (stack_mul (fluct_of cvm_U mp ms)
                 (fluct_of cvm_V mp ms)) (fluct_of cvm_W mp ms))))"

text \<open>
  A path loads with grid dimensions \<open>d\<close>; the velocity record the loader returns for a path
  (used only for paths that load).
\<close>

definition loads_with :: "loader \<Rightarrow> real option \<Rightarrow> nat \<times> nat \<Rightarrow> string \<Rightarrow> bool" where
  "loads_with load vfs d path = (case load path vfs of Inl e \<Rightarrow> False | Inr vf \<Rightarrow> vf_dims vf = d)"

definition loaded :: "loader \<Rightarrow> real option \<Rightarrow> string \<Rightarrow> cvm" where
  "loaded load vfs path = (case load path vfs of Inr vf \<Rightarrow> vf_vel_matrix vf)"

text \<open>What the writes through \<^verbatim>\<open>__setitem__\<close> leave alone.\<close>

definition frame :: "MeanVecFieldCartesian \<Rightarrow> MeanVecFieldCartesian \<Rightarrow> bool" where
  "frame s t = (constituent_vel_matrix_list t = constituent_vel_matrix_list s \<and>
                v3d_paths t = v3d_paths s \<and> dims t = dims s \<and> meshgrid t = meshgrid s \<and>
                x_set t = x_set s \<and> y_set t = y_set s)"







text \<open>
  A small data set for the examples: three samples on a 2 x 2 grid whose U values are 1, 3
  and 5 at every cell (V is 4 and W is 12), a loader serving them under three file names and
  a fourth file with another grid, and a store with three path lists.
\<close>

definition demo_sample :: "real \<Rightarrow> cvm" where
  "demo_sample x = \<lparr>cvm_U = (\<lambda>r c. Some x), cvm_V = (\<lambda>r c. Some 4), cvm_W = (\<lambda>r c. Some 12)\<rparr>"


definition demo_field :: "real \<Rightarrow> VecFieldCartesian" where
  "demo_field x =
     \<lparr>vf_x_set = [0, 1], vf_y_set = [0, 1], vf_dims = (2, 2),
      vf_meshgrid = [''x_mesh'' \<mapsto> Mesh [[0, 1], [0, 1]], ''y_mesh'' \<mapsto> Mesh [[0, 0], [1, 1]]],
      vf_vel_matrix = demo_sample x\<rparr>"

definition demo_load :: loader where
  "demo_load path vfs =
     (if path = ''a.v3d'' then Inr (demo_field 1)
      else if path = ''b.v3d'' then Inr (demo_field 3)
      else if path = ''c.v3d'' then Inr (demo_field 5)
      else if path = ''wide.v3d'' then Inr ((demo_field 7)\<lparr>vf_dims := (2, 3)\<rparr>)
      else Inl (LoaderError path))"

definition demo_heap :: heap where
  "demo_heap = (\<lambda>a. [])
     (0 := [''a.v3d'', ''b.v3d'', ''c.v3d''],
      1 := [''a.v3d'', ''b.v3d'', ''wide.v3d'', ''c.v3d''],
      2 := [''c.v3d'', ''a.v3d'', ''b.v3d''])"

text \<open>Whether an object is a coordinate axis, as \<^verbatim>\<open>x_set\<close> and \<^verbatim>\<open>y_set\<close> are.\<close>

fun is_axis :: "pyobj \<Rightarrow> bool" where
  "is_axis (Axis xs) = True"
| "is_axis _ = False"

section \<open>The loops and the aggregation, characterised\<close>

lemma stack_loop_cells:
  "(\<And>r c. length (u r c) = i + length ms) \<Longrightarrow>
   (\<And>r c. length (v r c) = i + length ms) \<Longrightarrow>
   (\<And>r c. length (w r c) = i + length ms) \<Longrightarrow>
   stack_loop ms i (u, v, w) =
     (\<lambda>r c. take i (u r c) @ column cvm_U ms r c,
      \<lambda>r c. take i (v r c) @ column cvm_V ms r c,
      \<lambda>r c. take i (w r c) @ column cvm_W ms r c)"
proof (induction ms arbitrary: i u v w)
  case Nil
  then show ?case by (simp add: column_def)
next
  case (Cons m ms)
  have step: "take (Suc i) (xs[i := x]) @ ys = take i xs @ x # ys"
    if "length xs = i + length (m # ms)" for xs :: "real option list" and x ys
    using that by (simp add: take_Suc_conv_app_nth)
  show ?case
    using Cons.prems
    by (simp add: Cons.IH assign_layer_def column_def step)
qed

lemma stack_loop_zeros:
  "stack_loop ms 0 (zeros (length ms), zeros (length ms), zeros (length ms)) =
     (column cvm_U ms, column cvm_V ms, column cvm_W ms)"
  using stack_loop_cells [of "zeros (length ms)" 0 ms "zeros (length ms)" "zeros (length ms)"]
  by (simp add: zeros_def)

lemma fluct_loop_cells:
  assumes "as_float (getitem self ''U'') = Some mU"
      and "as_float (getitem self ''V'') = Some mV"
      and "as_float (getitem self ''W'') = Some mW"
  shows "(\<And>r c. length (u r c) = i + length ms) \<Longrightarrow>
   (\<And>r c. length (v r c) = i + length ms) \<Longrightarrow>
   (\<And>r c. length (w r c) = i + length ms) \<Longrightarrow>
   (\<And>r c. length (up r c) = i + length ms) \<Longrightarrow>
   (\<And>r c. length (vp r c) = i + length ms) \<Longrightarrow>
   (\<And>r c. length (wp r c) = i + length ms) \<Longrightarrow>
   fluct_loop self (u, v, w) ms i (up, vp, wp) = Inr
     (\<lambda>r c. take i (up r c) @ map (\<lambda>x. ma_binop (-) x (mU r c)) (drop i (u r c)),
      \<lambda>r c. take i (vp r c) @ map (\<lambda>x. ma_binop (-) x (mV r c)) (drop i (v r c)),
      \<lambda>r c. take i (wp r c) @ map (\<lambda>x. ma_binop (-) x (mW r c)) (drop i (w r c)))"
proof (induction ms arbitrary: i up vp wp)
  case Nil
  then show ?case by simp
next
  case (Cons m ms)
  have step: "take (Suc i) (xs[i := ma_binop (-) (zs ! i) y]) @ map (\<lambda>x. ma_binop (-) x y) (drop (Suc i) zs)
                = take i xs @ map (\<lambda>x. ma_binop (-) x y) (drop i zs)"
    if "length xs = i + length (m # ms)" "length zs = i + length (m # ms)"
    for xs zs :: "real option list" and y
  proof -
    have "drop i zs = zs ! i # drop (Suc i) zs"
      using that by (simp add: Cons_nth_drop_Suc)
    then show ?thesis
      using that by (simp add: take_Suc_conv_app_nth)
  qed
  show ?case
    using Cons.prems assms
    by (simp add: Cons.IH assign_layer_def layer_def arr_sub_def step)
qed

lemma fluct_loop_zeros:
  assumes "as_float (getitem self ''U'') = Some mU"
      and "as_float (getitem self ''V'') = Some mV"
      and "as_float (getitem self ''W'') = Some mW"
  shows "fluct_loop self (column cvm_U ms, column cvm_V ms, column cvm_W ms) ms 0
           (zeros (length ms), zeros (length ms), zeros (length ms)) =
         Inr (fluct (column cvm_U ms) mU, fluct (column cvm_V ms) mV, fluct (column cvm_W ms) mW)"
proof -
  have "fluct_loop self (column cvm_U ms, column cvm_V ms, column cvm_W ms) ms 0
           (zeros (length ms), zeros (length ms), zeros (length ms)) = Inr
     (\<lambda>r c. take 0 (zeros (length ms) r c) @ map (\<lambda>x. ma_binop (-) x (mU r c)) (drop 0 (column cvm_U ms r c)),
      \<lambda>r c. take 0 (zeros (length ms) r c) @ map (\<lambda>x. ma_binop (-) x (mV r c)) (drop 0 (column cvm_V ms r c)),
      \<lambda>r c. take 0 (zeros (length ms) r c) @ map (\<lambda>x. ma_binop (-) x (mW r c)) (drop 0 (column cvm_W ms r c)))"
    by (rule fluct_loop_cells [OF assms]) (simp_all add: zeros_def column_def)
  then show ?thesis
    by (simp add: fluct_def [abs_def])
qed

lemma seq_None: "seq (None, s) f = f s"
  by (simp add: seq_def)

lemma setitem_key:
  "vel_matrix s k \<noteq> None \<Longrightarrow> setitem s k v = (None, s\<lparr>vel_matrix := (vel_matrix s)(k \<mapsto> v)\<rparr>)"
  by (simp add: setitem_def)

lemma getitem_key: "vel_matrix s k = Some v \<Longrightarrow> getitem s k = v"
  by (simp add: getitem_def)

lemma has_keys_iff: "has_keys s \<Longrightarrow> (vel_matrix s k \<noteq> None) = (k \<in> set field_keys)"
  unfolding has_keys_def by (metis domIff)

lemma has_keys_fields:
  assumes "has_keys s"
  shows "vel_matrix s ''U'' \<noteq> None" "vel_matrix s ''V'' \<noteq> None" "vel_matrix s ''W'' \<noteq> None"
    "vel_matrix s ''P'' \<noteq> None" "vel_matrix s ''M'' \<noteq> None"
    "vel_matrix s ''u'' \<noteq> None" "vel_matrix s ''v'' \<noteq> None" "vel_matrix s ''w'' \<noteq> None"
    "vel_matrix s ''uu'' \<noteq> None" "vel_matrix s ''vv'' \<noteq> None" "vel_matrix s ''ww'' \<noteq> None"
    "vel_matrix s ''cte'' \<noteq> None"
    "vel_matrix s ''uv'' \<noteq> None" "vel_matrix s ''uw'' \<noteq> None" "vel_matrix s ''vw'' \<noteq> None"
    "vel_matrix s ''uvw'' \<noteq> None" "vel_matrix s ''num'' \<noteq> None"
  using has_keys_iff [OF assms] by (simp_all add: field_keys_def)

lemma fluct_loop_run:
  assumes "vel_matrix self ''U'' = Some (FloatArr mU)"
      and "vel_matrix self ''V'' = Some (FloatArr mV)"
      and "vel_matrix self ''W'' = Some (FloatArr mW)"
  shows "fluct_loop self (column cvm_U ms, column cvm_V ms, column cvm_W ms) ms 0
           (zeros (length ms), zeros (length ms), zeros (length ms)) =
         Inr (fluct (column cvm_U ms) mU, fluct (column cvm_V ms) mV, fluct (column cvm_W ms) mW)"
  by (rule fluct_loop_zeros) (simp_all add: getitem_key assms)

lemma store_moments_result:
  assumes "has_keys s"
  shows "store_moments s mpm (up, vp, wp) = (None, s\<lparr>vel_matrix := (vel_matrix s)
     (''u'' \<mapsto> FloatArr (masked_array (mean_axis2 (stack_abs up)) mpm),
      ''v'' \<mapsto> FloatArr (masked_array (mean_axis2 (stack_abs vp)) mpm),
      ''w'' \<mapsto> FloatArr (masked_array (mean_axis2 (stack_abs wp)) mpm),
      ''uu'' \<mapsto> FloatArr (masked_array (mean_axis2 (stack_mul up up)) mpm),
      ''vv'' \<mapsto> FloatArr (masked_array (mean_axis2 (stack_mul vp vp)) mpm),
      ''ww'' \<mapsto> FloatArr (masked_array (mean_axis2 (stack_mul wp wp)) mpm),
      ''cte'' \<mapsto> FloatArr (arr_half (arr_add (arr_add
                 (masked_array (mean_axis2 (stack_mul up up)) mpm)
                 (masked_array (mean_axis2 (stack_mul vp vp)) mpm))
                 (masked_array (mean_axis2 (stack_mul wp wp)) mpm))),
      ''uv'' \<mapsto> FloatArr (masked_array (mean_axis2 (stack_mul up vp)) mpm),
      ''uw'' \<mapsto> FloatArr (masked_array (mean_axis2 (stack_mul up wp)) mpm),
      ''vw'' \<mapsto> FloatArr (masked_array (mean_axis2 (stack_mul vp wp)) mpm),
      ''uvw'' \<mapsto> FloatArr (masked_array (mean_axis2 (stack_mul (stack_mul up vp) wp)) mpm))\<rparr>)"
  using has_keys_fields [OF assms]
  by (simp add: store_moments_def seq_None setitem_key assign_def half_sum3_def getitem_key)

lemma has_keys_setitem: "has_keys s \<Longrightarrow> has_keys (snd (setitem s k v))"
  by (auto simp: has_keys_def setitem_def)

lemma average_cartesian_result:
  assumes "has_keys s" and "dims s = (Some nr, Some nc)"
  shows "average_cartesian s mp =
    (None, s\<lparr>min_points := mp,
              vel_matrix := stats mp (constituent_vel_matrix_list s) (vel_matrix s)\<rparr>)"
proof -
  define ms where "ms = constituent_vel_matrix_list s"
  define mpm where "mpm = (\<lambda>r c. int (count_axis2 (column cvm_U ms) r c) \<le> mp)"
  define s6 where "s6 = s\<lparr>min_points := mp, vel_matrix := (vel_matrix s)
     (''num'' \<mapsto> IntArr (masked_array (\<lambda>r c. Some (int (count_axis2 (column cvm_U ms) r c))) mpm),
      ''U'' \<mapsto> FloatArr (mean_of cvm_U mp ms),
      ''V'' \<mapsto> FloatArr (mean_of cvm_V mp ms),
      ''W'' \<mapsto> FloatArr (mean_of cvm_W mp ms),
      ''M'' \<mapsto> FloatArr (arr_power_half (arr_add (arr_add (arr_sq (mean_of cvm_U mp ms))
                 (arr_sq (mean_of cvm_V mp ms))) (arr_sq (mean_of cvm_W mp ms)))),
      ''P'' \<mapsto> FloatArr (arr_power_half (arr_add (arr_sq (mean_of cvm_U mp ms))
                 (arr_sq (mean_of cvm_V mp ms)))))\<rparr>"
  note k = has_keys_fields [OF assms(1)]
  have mpm: "mpm = mpm_of mp ms"
    by (simp add: mpm_def mpm_of_def [abs_def])
  have k6: "has_keys s6"
    using assms(1) by (auto simp: s6_def has_keys_def field_keys_def)
  have ms6: "constituent_vel_matrix_list s6 = ms"
    by (simp add: s6_def ms_def)
  have fl: "fluct_loop s6 (column cvm_U ms, column cvm_V ms, column cvm_W ms) ms 0
           (zeros (length ms), zeros (length ms), zeros (length ms)) =
         Inr (fluct_of cvm_U mp ms, fluct_of cvm_V mp ms, fluct_of cvm_W mp ms)"
    unfolding fluct_of_def by (rule fluct_loop_run) (simp_all add: s6_def)
  have "average_cartesian s mp = store_moments s6 mpm
          (fluct_of cvm_U mp ms, fluct_of cvm_V mp ms, fluct_of cvm_W mp ms)"
    using k assms(2) fl [unfolded s6_def ms_def]
    unfolding average_cartesian_def Let_def
    by (simp add: stack_loop_zeros seq_None setitem_key assign_def magnitude3_def magnitude2_def
                  getitem_key mean_of_def mpm_of_def [abs_def] s6_def ms_def mpm_def)
  also have "\<dots> = (None, s\<lparr>min_points := mp, vel_matrix := stats mp ms (vel_matrix s)\<rparr>)"
    unfolding store_moments_result [OF k6]
    by (simp add: s6_def stats_def moment_def mpm)
  finally show ?thesis
    by (simp add: ms_def)
qed

lemma ingest_loop_frame:
  "velocity_fs (snd (ingest_loop load vf0 ps s)) = velocity_fs s \<and>
   v3d_paths (snd (ingest_loop load vf0 ps s)) = v3d_paths s \<and>
   min_points (snd (ingest_loop load vf0 ps s)) = min_points s \<and>
   dims (snd (ingest_loop load vf0 ps s)) = dims s \<and>
   x_set (snd (ingest_loop load vf0 ps s)) = x_set s \<and>
   y_set (snd (ingest_loop load vf0 ps s)) = y_set s \<and>
   meshgrid (snd (ingest_loop load vf0 ps s)) = meshgrid s \<and>
   vel_matrix (snd (ingest_loop load vf0 ps s)) = vel_matrix s"
  by (induction ps arbitrary: s) (auto split: sum.splits)

lemma ingest_loop_extends:
  "\<exists>tl. constituent_vel_matrix_list (snd (ingest_loop load vf0 ps s)) =
         constituent_vel_matrix_list s @ tl"
proof (induction ps arbitrary: s)
  case Nil
  show ?case by simp
next
  case (Cons p ps)
  show ?case
  proof (cases "load p (velocity_fs s)")
    case (Inl e)
    then show ?thesis by simp
  next
    case (Inr vf)
    show ?thesis
    proof (cases "vf_dims vf = vf_dims vf0")
      case False
      with Inr show ?thesis by simp
    next
      case True
      let ?s = "s\<lparr>constituent_vel_matrix_list :=
                     constituent_vel_matrix_list s @ [vf_vel_matrix vf]\<rparr>"
      from Cons.IH [of ?s] obtain tl where
        "constituent_vel_matrix_list (snd (ingest_loop load vf0 ps ?s)) =
           constituent_vel_matrix_list ?s @ tl" ..
      with Inr True show ?thesis by simp
    qed
  qed
qed

lemma ingest_loop_all:
  "\<forall>x \<in> set ps. loads_with load (velocity_fs s) (vf_dims vf0) x \<Longrightarrow>
   ingest_loop load vf0 ps s =
     (None, s\<lparr>constituent_vel_matrix_list :=
                 constituent_vel_matrix_list s @ map (loaded load (velocity_fs s)) ps\<rparr>)"
proof (induction ps arbitrary: s)
  case Nil
  then show ?case by simp
next
  case (Cons p ps)
  then show ?case
    by (auto simp: loads_with_def loaded_def split: sum.splits)
qed

lemma ingest_loop_mismatch:
  "\<forall>x \<in> set pre. loads_with load (velocity_fs s) (vf_dims vf0) x \<Longrightarrow>
   load q (velocity_fs s) = Inr vfq \<Longrightarrow> vf_dims vfq \<noteq> vf_dims vf0 \<Longrightarrow>
   ingest_loop load vf0 (pre @ q # post) s =
     (Some AssertionError, s\<lparr>constituent_vel_matrix_list :=
                 constituent_vel_matrix_list s @ map (loaded load (velocity_fs s)) pre\<rparr>)"
proof (induction pre arbitrary: s)
  case Nil
  then show ?case by simp
next
  case (Cons p ps)
  then show ?case
    by (auto simp: loads_with_def loaded_def split: sum.splits)
qed

lemma seq_frame:
  "P (snd r) \<Longrightarrow> (\<And>t. P t \<Longrightarrow> P (snd (f t))) \<Longrightarrow> P (snd (seq r f))"
  by (cases r) (auto simp: seq_def split: option.splits)

lemma frame_setitem: "frame s t \<Longrightarrow> frame s (snd (setitem t k v))"
  by (simp add: frame_def setitem_def)

lemma frame_assign: "frame s t \<Longrightarrow> frame s (snd (assign t k e))"
  by (cases e) (simp_all add: assign_def frame_setitem)

lemma frame_store_moments: "frame s t \<Longrightarrow> frame s (snd (store_moments t mpm sets_p))"
  unfolding store_moments_def
  by (cases sets_p) (auto intro!: seq_frame [where P = "frame s"] frame_setitem frame_assign)

lemma frame_average_cartesian: "frame s (snd (average_cartesian s mp))"
proof -
  have 0: "frame s (s\<lparr>min_points := mp\<rparr>)"
    by (simp add: frame_def)
  show ?thesis
    unfolding average_cartesian_def Let_def
    by (auto intro!: seq_frame [where P = "frame s"] frame_setitem frame_assign frame_store_moments 0
             split: prod.splits option.splits sum.splits)
qed

lemma has_keys_new_instance: "has_keys (new_instance nt paths mp vfs)"
  by (simp add: has_keys_def new_instance_def dom_map_of_conv_image_fst image_image)

lemma has_keys_stats: "dom vm = set field_keys \<Longrightarrow> dom (stats mp ms vm) = set field_keys"
  by (auto simp: stats_def field_keys_def)

lemma ingest_paths_success:
  assumes "has_keys s" and "h r = p # rest" and "load p (velocity_fs s) = Inr vf0"
      and "\<forall>x \<in> set rest. loads_with load (velocity_fs s) (vf_dims vf0) x"
  shows "ingest_paths load s h r =
    (None,
     s\<lparr>x_set := Axis (vf_x_set vf0), y_set := Axis (vf_y_set vf0),
        dims := (Some (fst (vf_dims vf0)), Some (snd (vf_dims vf0))),
        meshgrid := vf_meshgrid vf0,
        constituent_vel_matrix_list :=
          constituent_vel_matrix_list s @ vf_vel_matrix vf0 # map (loaded load (velocity_fs s)) rest,
        vel_matrix := stats (min_points s)
          (constituent_vel_matrix_list s @ vf_vel_matrix vf0 # map (loaded load (velocity_fs s)) rest)
          (vel_matrix s)\<rparr>,
     h(r := rest))"
proof -
  let ?s1 = "s\<lparr>x_set := Axis (vf_x_set vf0), y_set := Axis (vf_y_set vf0),
        dims := (Some (fst (vf_dims vf0)), Some (snd (vf_dims vf0))),
        meshgrid := vf_meshgrid vf0,
        constituent_vel_matrix_list := constituent_vel_matrix_list s @ [vf_vel_matrix vf0]\<rparr>"
  let ?s2 = "?s1\<lparr>constituent_vel_matrix_list :=
        constituent_vel_matrix_list ?s1 @ map (loaded load (velocity_fs ?s1)) rest\<rparr>"
  have loop: "ingest_loop load vf0 rest ?s1 = (None, ?s2)"
    by (rule ingest_loop_all) (use assms(4) in simp)
  have k2: "has_keys ?s2"
    using assms(1) by (simp add: has_keys_def)
  have avg: "average_cartesian ?s2 (min_points ?s2) =
    (None, ?s2\<lparr>min_points := min_points ?s2,
                vel_matrix := stats (min_points ?s2) (constituent_vel_matrix_list ?s2) (vel_matrix ?s2)\<rparr>)"
    by (rule average_cartesian_result [OF k2]) simp
  show ?thesis
    using avg unfolding ingest_paths_def Let_def
    by (simp add: assms(2,3) loop seq_None)
qed

lemma ingest_paths_mismatch:
  assumes "h r = p # pre @ q # post" and "load p (velocity_fs s) = Inr vf0"
      and "\<forall>x \<in> set pre. loads_with load (velocity_fs s) (vf_dims vf0) x"
      and "load q (velocity_fs s) = Inr vfq" and "vf_dims vfq \<noteq> vf_dims vf0"
  shows "ingest_paths load s h r =
    (Some AssertionError,
     s\<lparr>x_set := Axis (vf_x_set vf0), y_set := Axis (vf_y_set vf0),
        dims := (Some (fst (vf_dims vf0)), Some (snd (vf_dims vf0))),
        meshgrid := vf_meshgrid vf0,
        constituent_vel_matrix_list :=
          constituent_vel_matrix_list s @ vf_vel_matrix vf0 # map (loaded load (velocity_fs s)) pre\<rparr>,
     h(r := pre @ q # post))"
proof -
  let ?s1 = "s\<lparr>x_set := Axis (vf_x_set vf0), y_set := Axis (vf_y_set vf0),
        dims := (Some (fst (vf_dims vf0)), Some (snd (vf_dims vf0))),
        meshgrid := vf_meshgrid vf0,
        constituent_vel_matrix_list := constituent_vel_matrix_list s @ [vf_vel_matrix vf0]\<rparr>"
  have loop: "ingest_loop load vf0 (pre @ q # post) ?s1 =
     (Some AssertionError, ?s1\<lparr>constituent_vel_matrix_list :=
        constituent_vel_matrix_list ?s1 @ map (loaded load (velocity_fs ?s1)) pre\<rparr>)"
    by (rule ingest_loop_mismatch [where vfq = vfq]) (use assms(3,4,5) in simp_all)
  show ?thesis
    unfolding ingest_paths_def Let_def
    by (simp add: assms(1,2) loop seq_def)
qed

lemma getitem_new_instance: "getitem (new_instance nt paths mp vfs) k = PyNone"
  by (auto simp: getitem_def new_instance_def map_of_map_restrict restrict_map_def)

lemma field_keys_rev: "k \<in> set field_keys \<Longrightarrow> rev k \<in> set field_keys \<Longrightarrow> rev k = k"
  unfolding field_keys_def by (elim disjE | simp)+

section \<open>The accessor: reversed keys and unknown keys\<close>

text \<open>
  Claim C5. For every key \<open>k\<close> of the field table (the two- and three-letter keys among
  them), reading the reversed key returns what reading \<open>k\<close> returns, and writing through
  the reversed key stores the value under \<open>k\<close>, exactly as writing through \<open>k\<close> does.
  The field table of an instance always has the keys of \<open>field_keys\<close> and no others.
\<close>

theorem reversed_key_alias:
  assumes "has_keys self" and "key \<in> set field_keys"
  shows "getitem self (rev key) = getitem self key
     \<and> setitem self (rev key) val = (None, self\<lparr>vel_matrix := (vel_matrix self)(key \<mapsto> val)\<rparr>)
     \<and> setitem self (rev key) val = setitem self key val"
proof -
  have present: "vel_matrix self key \<noteq> None"
    using has_keys_iff [OF assms(1), of key] assms(2) by simp
  show ?thesis
  proof (cases "rev key = key")
    case True
    with present show ?thesis
      by (simp add: setitem_def)
  next
    case False
    with assms(2) have "rev key \<notin> set field_keys"
      using field_keys_rev by blast
    then have "vel_matrix self (rev key) = None"
      using has_keys_iff [OF assms(1), of "rev key"] by simp
    with present show ?thesis
      by (simp add: getitem_def setitem_def)
  qed
qed

theorem reversed_key_alias_witness:
  "has_keys (new_instance None None 20 None) \<and> ''uv'' \<in> set field_keys
   \<and> getitem (new_instance None None 20 None) ''vu'' = getitem (new_instance None None 20 None) ''uv''
   \<and> setitem (new_instance None None 20 None) ''vu'' (FloatArr (\<lambda>r c. Some 1)) =
       (None, (new_instance None None 20 None)\<lparr>vel_matrix :=
          (vel_matrix (new_instance None None 20 None))(''uv'' \<mapsto> FloatArr (\<lambda>r c. Some 1))\<rparr>)"
proof -
  have k: "has_keys (new_instance None None 20 None)"
    by (rule has_keys_new_instance)
  have a: "''uv'' \<in> set field_keys"
    by (simp add: field_keys_def)
  show ?thesis
    using k a reversed_key_alias [OF k a, of "FloatArr (\<lambda>r c. Some 1)"] by simp
qed

text \<open>
  Claim C6. Writing with a key that is in the field table neither as it is nor reversed
  raises (the code raises \<^verbatim>\<open>AttributeError\<close>) and returns the instance as it was.
\<close>

theorem setitem_invalid_key:
  "has_keys self \<Longrightarrow> key \<notin> set field_keys \<Longrightarrow> rev key \<notin> set field_keys \<Longrightarrow>
   setitem self key val = (Some (AttributeError key), self)"
  using has_keys_iff [of self] by (simp add: setitem_def)

theorem setitem_invalid_key_witness:
  "has_keys (new_instance None None 20 None) \<and> ''zz'' \<notin> set field_keys \<and> rev ''zz'' \<notin> set field_keys
   \<and> setitem (new_instance None None 20 None) ''zz'' (FloatArr (\<lambda>r c. Some 1)) =
       (Some (AttributeError ''zz''), new_instance None None 20 None)"
proof -
  have k: "has_keys (new_instance None None 20 None)"
    by (rule has_keys_new_instance)
  have a: "''zz'' \<notin> set field_keys" and b: "rev ''zz'' \<notin> set field_keys"
    by (simp_all add: field_keys_def)
  show ?thesis
    using k a b setitem_invalid_key [OF k a b] by simp
qed

section \<open>Ingestion of an empty list\<close>

text \<open>
  Claim C7. Ingesting an empty path list raises at the \<^verbatim>\<open>pop(0)\<close> (an
  \<^verbatim>\<open>IndexError\<close> in the code) before anything is stored: the instance and the list are
  unchanged; through the constructor, the instance has no grid dimensions, no samples and
  every key reads as \<^verbatim>\<open>None\<close>.
\<close>

theorem ingest_empty_list:
  "ingest_paths load self (h(r := [])) r = (Some IndexError, self, h(r := []))
   \<and> init load nt (Some r) mp vfs (h(r := [])) =
       (Some IndexError, new_instance nt (Some r) mp vfs, h(r := []))
   \<and> dims (new_instance nt (Some r) mp vfs) = (None, None)
   \<and> constituent_vel_matrix_list (new_instance nt (Some r) mp vfs) = []
   \<and> (\<forall>k. getitem (new_instance nt (Some r) mp vfs) k = PyNone)"
  by (simp add: ingest_paths_def init_def getitem_new_instance) (simp add: new_instance_def)

section \<open>The field table after a run\<close>





























section \<open>The example loader and store\<close>

lemma demo_load_simps:
  "demo_load ''a.v3d'' vfs = Inr (demo_field 1)"
  "demo_load ''b.v3d'' vfs = Inr (demo_field 3)"
  "demo_load ''c.v3d'' vfs = Inr (demo_field 5)"
  "demo_load ''wide.v3d'' vfs = Inr ((demo_field 7)\<lparr>vf_dims := (2, 3)\<rparr>)"
  by (simp_all add: demo_load_def)

lemma demo_loads_with:
  "loads_with demo_load vfs (2, 2) ''a.v3d''"
  "loads_with demo_load vfs (2, 2) ''b.v3d''"
  "loads_with demo_load vfs (2, 2) ''c.v3d''"
  by (simp_all add: loads_with_def demo_load_simps demo_field_def)

lemma demo_loaded:
  "loaded demo_load vfs ''a.v3d'' = demo_sample 1"
  "loaded demo_load vfs ''b.v3d'' = demo_sample 3"
  "loaded demo_load vfs ''c.v3d'' = demo_sample 5"
  by (simp_all add: loaded_def demo_load_simps demo_field_def)

lemma demo_heap_simps:
  "demo_heap 0 = [''a.v3d'', ''b.v3d'', ''c.v3d'']"
  "demo_heap (Suc 0) = [''a.v3d'', ''b.v3d'', ''wide.v3d'', ''c.v3d'']"
  "demo_heap 2 = [''c.v3d'', ''a.v3d'', ''b.v3d'']"
  by (simp_all add: demo_heap_def)

section \<open>Ingestion: mismatching grids, the popped path, the mesh keys\<close>

text \<open>
  Claim C4, as the code has it. When a later sample loads with other \<^verbatim>\<open>dims\<close> than the first
  one, \<^verbatim>\<open>ingest_paths\<close> raises at the \<^verbatim>\<open>assert\<close> before \<^verbatim>\<open>_average_cartesian\<close> runs: the
  field table and \<^verbatim>\<open>min_points\<close> are as they were. The instance keeps what was assigned
  before the assertion: the grid of the first sample and the velocity records of the first
  sample and of every sample loaded before the mismatching one; the path list has lost its
  first element.
\<close>

theorem dimension_mismatch:
  assumes "h r = p # pre @ q # post" and "load p (velocity_fs self) = Inr vf0"
      and "list_all (loads_with load (velocity_fs self) (vf_dims vf0)) pre"
      and "load q (velocity_fs self) = Inr vfq" and "vf_dims vfq \<noteq> vf_dims vf0"
  shows "ingest_paths load self h r =
    (Some AssertionError,
     self\<lparr>x_set := Axis (vf_x_set vf0), y_set := Axis (vf_y_set vf0),
        dims := (Some (fst (vf_dims vf0)), Some (snd (vf_dims vf0))),
        meshgrid := vf_meshgrid vf0,
        constituent_vel_matrix_list :=
          constituent_vel_matrix_list self @ vf_vel_matrix vf0 # map (loaded load (velocity_fs self)) pre\<rparr>,
     h(r := pre @ q # post))
    \<and> vel_matrix (fst (snd (ingest_paths load self h r))) = vel_matrix self
    \<and> min_points (fst (snd (ingest_paths load self h r))) = min_points self"
proof -
  have pre: "\<forall>x \<in> set pre. loads_with load (velocity_fs self) (vf_dims vf0) x"
    using assms(3) by (simp add: list_all_iff)
  show ?thesis
    by (simp add: ingest_paths_mismatch [where h = h and r = r, OF assms(1,2) pre assms(4,5)])
qed

lemma new_instance_simps:
  "constituent_vel_matrix_list (new_instance nt paths mp vfs) = []"
  "velocity_fs (new_instance nt paths mp vfs) = vfs"
  "min_points (new_instance nt paths mp vfs) = mp"
  "v3d_paths (new_instance nt paths mp vfs) = paths"
  "dims (new_instance nt paths mp vfs) = (None, None)"
  "vel_matrix (new_instance nt paths mp vfs) k = (if k \<in> set field_keys then Some PyNone else None)"
  by (simp_all add: new_instance_def map_of_map_restrict restrict_map_def)

theorem dimension_mismatch_witness:
  "fst (ingest_paths demo_load (new_instance None None 2 None) demo_heap 1) = Some AssertionError
   \<and> constituent_vel_matrix_list (fst (snd (ingest_paths demo_load (new_instance None None 2 None) demo_heap 1)))
       = [demo_sample 1, demo_sample 3]
   \<and> vel_matrix (fst (snd (ingest_paths demo_load (new_instance None None 2 None) demo_heap 1))) ''U''
       = Some PyNone
   \<and> snd (snd (ingest_paths demo_load (new_instance None None 2 None) demo_heap 1)) 1
       = [''b.v3d'', ''wide.v3d'', ''c.v3d'']"
proof -
  let ?s = "new_instance None None 2 None"
  let ?R = "ingest_paths demo_load ?s demo_heap 1"
  have h: "demo_heap 1 = ''a.v3d'' # [''b.v3d''] @ ''wide.v3d'' # [''c.v3d'']"
    by (simp add: demo_heap_simps)
  have p: "demo_load ''a.v3d'' (velocity_fs ?s) = Inr (demo_field 1)"
    and q: "demo_load ''wide.v3d'' (velocity_fs ?s) = Inr ((demo_field 7)\<lparr>vf_dims := (2, 3)\<rparr>)"
    by (simp_all add: demo_load_simps)
  have pre: "list_all (loads_with demo_load (velocity_fs ?s) (vf_dims (demo_field 1))) [''b.v3d'']"
    by (simp add: demo_loads_with demo_field_def)
  have d: "vf_dims ((demo_field 7)\<lparr>vf_dims := (2, 3)\<rparr>) \<noteq> vf_dims (demo_field 1)"
    by (simp add: demo_field_def)
  note t = dimension_mismatch [where h = demo_heap and r = 1, OF h p pre q d]
  from t have 1: "fst ?R = Some AssertionError"
    by simp
  from t have 2: "constituent_vel_matrix_list (fst (snd ?R)) = [demo_sample 1, demo_sample 3]"
    by (simp add: new_instance_simps demo_loaded demo_field_def)
  from t have 3: "vel_matrix (fst (snd ?R)) ''U'' = Some PyNone"
    by (simp add: new_instance_simps field_keys_def)
  from t have 4: "snd (snd ?R) 1 = [''b.v3d'', ''wide.v3d'', ''c.v3d'']"
    by simp
  from 1 2 3 4 show ?thesis
    by simp
qed

text \<open>
  Claim C4 as stated says that no partial ensemble stays on the instance. Here the third of
  four paths has another grid: the run raises and the instance, empty before, holds the
  first two samples and the grid of the first.
\<close>

theorem partial_ensemble_retained:
  "fst (ingest_paths demo_load (new_instance None None 2 None) demo_heap 1) = Some AssertionError
   \<and> constituent_vel_matrix_list (new_instance None None 2 None) = []
   \<and> constituent_vel_matrix_list (fst (snd (ingest_paths demo_load (new_instance None None 2 None) demo_heap 1)))
       = [demo_sample 1, demo_sample 3]
   \<and> dims (fst (snd (ingest_paths demo_load (new_instance None None 2 None) demo_heap 1)))
       = (Some 2, Some 2)"
proof -
  let ?s = "new_instance None None 2 None"
  let ?R = "ingest_paths demo_load ?s demo_heap 1"
  have h: "demo_heap 1 = ''a.v3d'' # [''b.v3d''] @ ''wide.v3d'' # [''c.v3d'']"
    by (simp add: demo_heap_simps)
  have p: "demo_load ''a.v3d'' (velocity_fs ?s) = Inr (demo_field 1)"
    and q: "demo_load ''wide.v3d'' (velocity_fs ?s) = Inr ((demo_field 7)\<lparr>vf_dims := (2, 3)\<rparr>)"
    by (simp_all add: demo_load_simps)
  have pre: "\<forall>x \<in> set [''b.v3d'']. loads_with demo_load (velocity_fs ?s) (vf_dims (demo_field 1)) x"
    by (simp add: demo_loads_with demo_field_def)
  have d: "vf_dims ((demo_field 7)\<lparr>vf_dims := (2, 3)\<rparr>) \<noteq> vf_dims (demo_field 1)"
    by (simp add: demo_field_def)
  note t = ingest_paths_mismatch [where h = demo_heap and r = 1, OF h p pre q d]
  from t have 1: "fst ?R = Some AssertionError"
    by simp
  from t have 2: "constituent_vel_matrix_list (fst (snd ?R)) = [demo_sample 1, demo_sample 3]"
    by (simp add: new_instance_simps demo_loaded demo_field_def)
  from t have 3: "dims (fst (snd ?R)) = (Some 2, Some 2)"
    by (simp add: demo_field_def)
  from 1 2 3 show ?thesis
    by (simp add: new_instance_simps)
qed

lemma ingest_paths_pop:
  assumes "h r = p # rest" and "load p (velocity_fs self) = Inr vf0"
  shows "snd (snd (ingest_paths load self h r)) = h(r := rest)"
    and "v3d_paths (fst (snd (ingest_paths load self h r))) = v3d_paths self"
    and "\<exists>tl. constituent_vel_matrix_list (fst (snd (ingest_paths load self h r))) =
            constituent_vel_matrix_list self @ vf_vel_matrix vf0 # tl"
proof -
  let ?s1 = "self\<lparr>x_set := Axis (vf_x_set vf0), y_set := Axis (vf_y_set vf0),
        dims := (Some (fst (vf_dims vf0)), Some (snd (vf_dims vf0))),
        meshgrid := vf_meshgrid vf0,
        constituent_vel_matrix_list := constituent_vel_matrix_list self @ [vf_vel_matrix vf0]\<rparr>"
  let ?P = "\<lambda>t. v3d_paths t = v3d_paths self \<and>
     (\<exists>tl. constituent_vel_matrix_list t = constituent_vel_matrix_list self @ vf_vel_matrix vf0 # tl)"
  let ?r = "seq (ingest_loop load vf0 rest ?s1) (\<lambda>s. average_cartesian s (min_points s))"
  have res: "ingest_paths load self h r = (fst ?r, snd ?r, h(r := rest))"
    by (simp add: ingest_paths_def assms Let_def)
  have loop: "?P (snd (ingest_loop load vf0 rest ?s1))"
  proof -
    obtain tl where "constituent_vel_matrix_list (snd (ingest_loop load vf0 rest ?s1)) =
        constituent_vel_matrix_list ?s1 @ tl"
      using ingest_loop_extends by blast
    then show ?thesis
      by (simp add: ingest_loop_frame)
  qed
  have avg: "?P (snd (average_cartesian t (min_points t)))" if "?P t" for t
    using that frame_average_cartesian [of t "min_points t"] by (simp add: frame_def)
  have "?P (snd ?r)"
    using loop avg by (rule seq_frame)
  then show "v3d_paths (fst (snd (ingest_paths load self h r))) = v3d_paths self"
    and "\<exists>tl. constituent_vel_matrix_list (fst (snd (ingest_paths load self h r))) =
            constituent_vel_matrix_list self @ vf_vel_matrix vf0 # tl"
    by (simp_all add: res)
  show "snd (snd (ingest_paths load self h r)) = h(r := rest)"
    by (simp add: res)
qed

text \<open>
  Claim C10. \<^verbatim>\<open>ingest_paths\<close> pops the first path from the list object it is given, and
  every other list of the store is untouched; the sample loaded from that path is in
  \<^verbatim>\<open>constituent_vel_matrix_list\<close> afterwards, whatever happens later in the run. Through the
  constructor, \<^verbatim>\<open>v3d_paths\<close> refers to that same list object, so it reads without the first
  path too.
\<close>

theorem ingest_pops_first_path:
  assumes "h r = p # rest" and "load p (velocity_fs self) = Inr vf0" and "load p vfs = Inr vf0"
  shows "snd (snd (ingest_paths load self h r)) r = rest
     \<and> snd (snd (ingest_paths load self h r)) = h(r := rest)
     \<and> (\<exists>tl. constituent_vel_matrix_list (fst (snd (ingest_paths load self h r))) =
            constituent_vel_matrix_list self @ vf_vel_matrix vf0 # tl)
     \<and> v3d_paths (fst (snd (init load nt (Some r) mp vfs h))) = Some r
     \<and> snd (snd (init load nt (Some r) mp vfs h)) r = rest
     \<and> (\<exists>tl. constituent_vel_matrix_list (fst (snd (init load nt (Some r) mp vfs h))) =
            vf_vel_matrix vf0 # tl)"
proof -
  let ?n = "new_instance nt (Some r) mp vfs"
  have l: "load p (velocity_fs ?n) = Inr vf0"
    using assms(3) by (simp add: new_instance_simps)
  note a = ingest_paths_pop [where h = h and r = r and load = load and self = self, OF assms(1,2)]
  note b = ingest_paths_pop [where h = h and r = r and load = load and self = ?n, OF assms(1) l]
  have i: "init load nt (Some r) mp vfs h = ingest_paths load ?n h r"
    by (simp add: init_def)
  from a b show ?thesis
    unfolding i by (simp add: new_instance_simps)
qed

theorem ingest_pops_first_path_witness:
  "demo_heap 0 = [''a.v3d'', ''b.v3d'', ''c.v3d'']
   \<and> snd (snd (init demo_load None (Some 0) 2 None demo_heap)) 0 = [''b.v3d'', ''c.v3d'']
   \<and> v3d_paths (fst (snd (init demo_load None (Some 0) 2 None demo_heap))) = Some 0
   \<and> (\<exists>tl. constituent_vel_matrix_list (fst (snd (init demo_load None (Some 0) 2 None demo_heap))) =
            demo_sample 1 # tl)"
proof -
  have h: "demo_heap 0 = ''a.v3d'' # [''b.v3d'', ''c.v3d'']"
    by (simp add: demo_heap_simps)
  have l: "demo_load ''a.v3d'' (velocity_fs (new_instance None (Some 0) 2 None)) = Inr (demo_field 1)"
    and l': "demo_load ''a.v3d'' None = Inr (demo_field 1)"
    by (simp_all add: demo_load_simps)
  from ingest_pops_first_path [where h = demo_heap and r = 0 and nt = None and mp = 2
      and load = demo_load and self = "new_instance None (Some 0) 2 None" and vfs = None, OF h l l']
  show ?thesis
    by (simp add: demo_heap_simps demo_field_def)
qed

lemma stats_cases:
  "stats mp ms vm k = Some v \<Longrightarrow>
     (\<exists>a. v = FloatArr a) \<or> (\<exists>a. v = IntArr a) \<or> (k \<notin> set field_keys \<and> vm k = Some v)"
  unfolding stats_def field_keys_def by (auto split: if_splits)

lemma stats_not_axis:
  assumes "dom vm = set field_keys" and "stats mp ms vm k = Some v"
  shows "\<not> is_axis v"
  using stats_cases [OF assms(2)] assms(1) by auto

text \<open>
  Claim C9, the part that holds. After a successful ingestion, a key that is neither a
  field key nor the reverse of one reads the entry of the mesh table taken from the first
  sample when the table has the key, and \<^verbatim>\<open>None\<close> otherwise. The axes \<^verbatim>\<open>x_set\<close> and
  \<^verbatim>\<open>y_set\<close> are attributes of the instance; the accessor does not look at them.
\<close>

theorem getitem_mesh_or_none:
  assumes "has_keys self" and "h r = p # rest" and "load p (velocity_fs self) = Inr vf0"
      and "list_all (loads_with load (velocity_fs self) (vf_dims vf0)) rest"
      and "k \<notin> set field_keys" and "rev k \<notin> set field_keys"
  shows "fst (ingest_paths load self h r) = None
     \<and> x_set (fst (snd (ingest_paths load self h r))) = Axis (vf_x_set vf0)
     \<and> y_set (fst (snd (ingest_paths load self h r))) = Axis (vf_y_set vf0)
     \<and> getitem (fst (snd (ingest_paths load self h r))) k =
         (case vf_meshgrid vf0 k of None \<Rightarrow> PyNone | Some v \<Rightarrow> v)"
proof -
  have rest: "\<forall>x \<in> set rest. loads_with load (velocity_fs self) (vf_dims vf0) x"
    using assms(4) by (simp add: list_all_iff)
  note s = ingest_paths_success [where h = h and r = r and load = load, OF assms(1,2,3) rest]
  let ?ms = "constituent_vel_matrix_list self @ vf_vel_matrix vf0 # map (loaded load (velocity_fs self)) rest"
  have d: "dom (stats (min_points self) ?ms (vel_matrix self)) = set field_keys"
    using assms(1) by (simp add: has_keys_stats has_keys_def)
  have "stats (min_points self) ?ms (vel_matrix self) k = None"
    and "stats (min_points self) ?ms (vel_matrix self) (rev k) = None"
    using d assms(5,6) by (metis domIff)+
  then show ?thesis
    by (simp add: s getitem_def split: option.splits)
qed

theorem getitem_mesh_or_none_witness:
  "fst (ingest_paths demo_load (new_instance None None 2 None) demo_heap 0) = None
   \<and> getitem (fst (snd (ingest_paths demo_load (new_instance None None 2 None) demo_heap 0))) ''x_mesh''
       = Mesh [[0, 1], [0, 1]]"
proof -
  let ?s = "new_instance None None 2 None"
  have h: "demo_heap 0 = ''a.v3d'' # [''b.v3d'', ''c.v3d'']"
    by (simp add: demo_heap_simps)
  have p: "demo_load ''a.v3d'' (velocity_fs ?s) = Inr (demo_field 1)"
    by (simp add: demo_load_simps)
  have rest: "list_all (loads_with demo_load (velocity_fs ?s) (vf_dims (demo_field 1))) [''b.v3d'', ''c.v3d'']"
    by (simp add: demo_loads_with demo_field_def)
  have k: "''x_mesh'' \<notin> set field_keys" "rev ''x_mesh'' \<notin> set field_keys"
    by (simp_all add: field_keys_def)
  from getitem_mesh_or_none [where h = demo_heap and r = 0 and load = demo_load,
      OF has_keys_new_instance h p rest k]
  show ?thesis
    by (simp add: demo_field_def)
qed

text \<open>
  Claim C9 as stated lets the accessor return the coordinate axes. After a successful
  ingestion of three samples \<^verbatim>\<open>x_set\<close> is set on the instance, the keys \<^verbatim>\<open>x_set\<close> and
  \<^verbatim>\<open>y_set\<close> read \<^verbatim>\<open>None\<close>, and no key at all reads an axis.
\<close>

theorem axis_not_readable:
  "fst (ingest_paths demo_load (new_instance None None 2 None) demo_heap 0) = None
   \<and> x_set (fst (snd (ingest_paths demo_load (new_instance None None 2 None) demo_heap 0))) = Axis [0, 1]
   \<and> getitem (fst (snd (ingest_paths demo_load (new_instance None None 2 None) demo_heap 0))) ''x_set''
       = PyNone
   \<and> getitem (fst (snd (ingest_paths demo_load (new_instance None None 2 None) demo_heap 0))) ''y_set''
       = PyNone
   \<and> (\<forall>k. \<not> is_axis (getitem
        (fst (snd (ingest_paths demo_load (new_instance None None 2 None) demo_heap 0))) k))"
proof -
  let ?s = "new_instance None None 2 None"
  let ?R = "ingest_paths demo_load ?s demo_heap 0"
  let ?ms = "constituent_vel_matrix_list ?s @ vf_vel_matrix (demo_field 1) #
               map (loaded demo_load (velocity_fs ?s)) [''b.v3d'', ''c.v3d'']"
  have h: "demo_heap 0 = ''a.v3d'' # [''b.v3d'', ''c.v3d'']"
    by (simp add: demo_heap_simps)
  have p: "demo_load ''a.v3d'' (velocity_fs ?s) = Inr (demo_field 1)"
    by (simp add: demo_load_simps)
  have rest: "\<forall>x \<in> set [''b.v3d'', ''c.v3d''].
      loads_with demo_load (velocity_fs ?s) (vf_dims (demo_field 1)) x"
    by (simp add: demo_loads_with demo_field_def)
  note s = ingest_paths_success [where h = demo_heap and r = 0 and load = demo_load,
      OF has_keys_new_instance h p rest]
  have d: "dom (vel_matrix ?s) = set field_keys"
    using has_keys_new_instance [of None None 2 None] by (simp add: has_keys_def)
  have vm: "vel_matrix (fst (snd ?R)) = stats (min_points ?s) ?ms (vel_matrix ?s)"
    and mg: "meshgrid (fst (snd ?R)) = vf_meshgrid (demo_field 1)"
    and xs: "x_set (fst (snd ?R)) = Axis [0, 1]"
    and ok: "fst ?R = None"
    by (simp_all add: s demo_field_def)
  have none: "vel_matrix (fst (snd ?R)) k = None" if "k \<notin> set field_keys" for k
    using that has_keys_stats [OF d, of "min_points ?s" ?ms] unfolding vm by (metis domIff)
  have field: "\<not> is_axis (the (vel_matrix (fst (snd ?R)) k))"
    if "vel_matrix (fst (snd ?R)) k \<noteq> None" for k
    using that stats_not_axis [OF d, of "min_points ?s" ?ms k] unfolding vm by auto
  have mesh: "\<not> is_axis (the (meshgrid (fst (snd ?R)) k))" if "meshgrid (fst (snd ?R)) k \<noteq> None" for k
    using that unfolding mg by (auto simp: demo_field_def split: if_splits)
  have all: "\<not> is_axis (getitem (fst (snd ?R)) k)" for k
    using field [of k] field [of "rev k"] mesh [of k] by (simp add: getitem_def)
  have x: "getitem (fst (snd ?R)) ''x_set'' = PyNone" and y: "getitem (fst (snd ?R)) ''y_set'' = PyNone"
    by (simp_all add: getitem_def none field_keys_def mg demo_field_def)
  from ok xs x y all show ?thesis
    by simp
qed

section \<open>The order of the samples\<close>

















end
